theory Spec2Isabelle
  imports Main
begin

section \<open>Python strings, lists and numbers\<close>

text \<open>
  The server is written in Python. A Python \<open>str\<close> is modelled as a \<open>string\<close>
  whose characters are the code points below 256; a Python list is a HOL list. Every
  place where the interpreter can raise is a branch of the model: indexing outside a
  list raises \<open>IndexError\<close>, \<open>int()\<close> and \<open>float()\<close> of a malformed text raise
  \<open>ValueError\<close>, and calling a bound method with too many arguments raises
  \<open>TypeError\<close>.
\<close>

datatype error = IndexError | ValueError | TypeError

text \<open>\<open>str.isspace\<close> on the code points below 256: TAB, LF, VT, FF, CR, the four
  separators FS, GS, RS, US, the space, NEL and the no-break space.\<close>

definition isspace :: "char \<Rightarrow> bool" where
  "isspace c \<longleftrightarrow> (of_char c :: nat) \<in> {9, 10, 11, 12, 13, 28, 29, 30, 31, 32, 133, 160}"

text \<open>\<open>x.strip()\<close>: leading and trailing whitespace removed.\<close>

definition strip :: "string \<Rightarrow> string" where
  "strip x = rev (dropWhile isspace (rev (dropWhile isspace x)))"

text \<open>\<open>x.split(" ")\<close>: a cut at every single space. Two spaces in a row give an empty
  token, and the empty text gives one empty token.\<close>

fun split_sp :: "string \<Rightarrow> string list" where
  "split_sp [] = [[]]"
| "split_sp (c # cs) =
     (if c = CHR '' '' then [] # split_sp cs
      else (case split_sp cs of [] \<Rightarrow> [[c]] | w # ws \<Rightarrow> (c # w) # ws))"

text \<open>\<open>sep.join(xs)\<close>.\<close>

fun join :: "string \<Rightarrow> string list \<Rightarrow> string" where
  "join sep [] = []"
| "join sep [x] = x"
| "join sep (x # y # ys) = x @ sep @ join sep (y # ys)"

definition startswith :: "string \<Rightarrow> string \<Rightarrow> bool" where
  "startswith x p \<longleftrightarrow> take (length p) x = p"

definition endswith :: "string \<Rightarrow> string \<Rightarrow> bool" where
  "endswith x p \<longleftrightarrow> length p \<le> length x \<and> drop (length x - length p) x = p"

text \<open>List indexing. A negative index counts from the end; an index outside the list
  has no position, and reading or writing there raises \<open>IndexError\<close>.\<close>

definition position :: "'a list \<Rightarrow> int \<Rightarrow> nat option" where
  "position xs i =
     (if 0 \<le> i \<and> i < int (length xs) then Some (nat i)
      else if i < 0 \<and> - i \<le> int (length xs) then Some (nat (int (length xs) + i))
      else None)"

definition getitem :: "'a list \<Rightarrow> int \<Rightarrow> error + 'a" where
  "getitem xs i = (case position xs i of None \<Rightarrow> Inl IndexError | Some k \<Rightarrow> Inr (xs ! k))"

definition setitem :: "'a list \<Rightarrow> int \<Rightarrow> 'a \<Rightarrow> error + 'a list" where
  "setitem xs i v = (case position xs i of None \<Rightarrow> Inl IndexError | Some k \<Rightarrow> Inr (xs[k := v]))"

text \<open>Sequencing of computations that may raise.\<close>

definition bind :: "error + 'a \<Rightarrow> ('a \<Rightarrow> error + 'b) \<Rightarrow> error + 'b" where
  "bind m k = (case m of Inl e \<Rightarrow> Inl e | Inr v \<Rightarrow> k v)"

text \<open>
  \<open>int(x)\<close> for a text \<open>x\<close>, base ten: whitespace around the number is skipped, one
  sign may come first, then digits, where a single underscore may stand between two
  digits. The whitespace \<open>int\<close> skips is narrower than that of \<open>strip\<close>: the
  separators FS, GS, RS and US are not skipped. The limit on the number of digits that
  later interpreters impose is not modelled.
\<close>

definition int_space :: "char \<Rightarrow> bool" where
  "int_space c \<longleftrightarrow> (of_char c :: nat) \<in> {9, 10, 11, 12, 13, 32, 133, 160}"

definition isdecimal :: "char \<Rightarrow> bool" where
  "isdecimal c \<longleftrightarrow> 48 \<le> (of_char c :: nat) \<and> (of_char c :: nat) \<le> 57"

definition digit_val :: "char \<Rightarrow> int" where
  "digit_val c = int (of_char c) - 48"

text \<open>\<open>digits acc after_digit cs\<close> reads the rest of the number: \<open>acc\<close> is the value
  read so far and \<open>after_digit\<close> says whether the last character read was a digit.\<close>

fun digits :: "int \<Rightarrow> bool \<Rightarrow> string \<Rightarrow> int option" where
  "digits acc after_digit [] = (if after_digit then Some acc else None)"
| "digits acc after_digit (c # cs) =
     (if isdecimal c then digits (10 * acc + digit_val c) True cs
      else if c = CHR ''_'' \<and> after_digit then digits acc False cs
      else None)"

definition py_int :: "string \<Rightarrow> error + int" where
  "py_int x =
     (let body = rev (dropWhile int_space (rev (dropWhile int_space x)));
          r = (case body of
                 [] \<Rightarrow> None
               | c # cs \<Rightarrow>
                   if c = CHR ''-'' then map_option uminus (digits 0 False cs)
                   else if c = CHR ''+'' then digits 0 False cs
                   else digits 0 False body)
      in case r of None \<Rightarrow> Inl ValueError | Some n \<Rightarrow> Inr n)"

section \<open>The command tokenizer\<close>

text \<open>
  Lines 41 to 48 of \<open>parseCommand\<close>: the line is stripped and split at single spaces,
  an empty argument token is appended when there is only the command name, one opening
  brace is taken from the front of token 1 and one closing brace from the end of the
  last token.
\<close>

definition tokenize :: "string \<Rightarrow> error + string list" where
  "tokenize cmd =
     (let t0 = split_sp (strip cmd);
          t1 = (if length t0 < 2 then t0 @ [''''] else t0)
      in bind (getitem t1 1) (\<lambda>a.
         bind (if startswith a ''{'' then setitem t1 1 (drop 1 a) else Inr t1) (\<lambda>t2.
         bind (getitem t2 (- 1)) (\<lambda>b.
         if endswith b ''}'' then setitem t2 (- 1) (butlast b) else Inr t2))))"

section \<open>The server and the speech framework\<close>

text \<open>
  A value stored in the \<open>_state\<close> dictionary is an integer (the rate offset) or a float
  (the character scale). Floats are not computed with: \<open>'f\<close> is the type of Python's
  floats, and \<open>float()\<close> is a parameter of the model (\<open>py_float\<close> below, \<open>None\<close> where
  \<open>float()\<close> raises \<open>ValueError\<close>).
\<close>

datatype 'f pyval = IntV int | FloatV 'f

text \<open>
  The items of a speech sequence handed to the speech framework: a text, and the
  commands the server constructs. \<open>RateCommand v\<close> is \<open>speech.RateCommand(v)\<close>, the
  relative rate offset; \<open>RateCommand_multiplier v\<close> is
  \<open>speech.RateCommand(multiplier=v)\<close>; \<open>BeepCommand\<close> carries its two arguments in the
  order the server passes them. \<open>OtherCommand\<close> stands for any further command the
  framework's own spelling expansion yields.
\<close>

datatype 'f item =
    Text string
  | EndUtteranceCommand
  | BeepCommand 'f int
  | RateCommand "'f pyval"
  | RateCommand_multiplier "'f pyval"
  | OtherCommand string

datatype priority = NORMAL | NEXT | NOW

text \<open>The calls the server makes into the speech framework.\<close>

datatype 'f call =
    speak "'f item list" priority
  | cancelSpeech
  | pauseSpeech bool

text \<open>
  What the server reads from its host: \<open>speech.RateCommand().newValue\<close> (the rate the
  backend runs at with no offset), \<open>speech.getSpellingSpeech\<close>, \<open>versionInfo.version\<close>,
  and Python's \<open>float()\<close>. The framework's calls are taken to return normally.
\<close>

record 'f host =
  RateCommand_newValue :: int
  getSpellingSpeech :: "string \<Rightarrow> 'f item list"
  versionInfo_version :: string
  py_float :: "string \<Rightarrow> 'f option"

text \<open>
  The \<open>Emacspeaker\<close> object: the dictionary \<open>_state\<close>, the list \<open>_header\<close> and the deque
  \<open>_queue\<close>. \<open>backend\<close> is the trace of the calls made into the speech framework so
  far, oldest first.
\<close>

record 'f emacspeaker =
  state :: "string \<rightharpoonup> 'f pyval"
  header :: "'f item list"
  queue :: "'f item list"
  backend :: "'f call list"

text \<open>\<open>__init__\<close>: everything empty.\<close>

definition init :: "'f emacspeaker" where
  "init = \<lparr>state = Map.empty, header = [], queue = [], backend = []\<rparr>"

text \<open>
  The outcome of a method call: it returns, or it raises. Both carry the object as the
  call left it, since an exception does not undo the assignments made before it.
\<close>

datatype 'f result = Return "'f emacspeaker" | Raise error "'f emacspeaker"

fun finish :: "'f result \<Rightarrow> 'f emacspeaker" where
  "finish (Return self) = self"
| "finish (Raise e self) = self"

definition invoke :: "'f call \<Rightarrow> 'f emacspeaker \<Rightarrow> 'f emacspeaker" where
  "invoke c self = self\<lparr>backend := backend self @ [c]\<rparr>"

text \<open>\<open>_buildHeader\<close>: a new list, with one rate command when \<open>rate_offset\<close> is set.\<close>

definition buildHeader :: "'f emacspeaker \<Rightarrow> 'f emacspeaker" where
  "buildHeader self =
     (let self = self\<lparr>header := []\<rparr>
      in case state self ''rate_offset'' of
           None \<Rightarrow> self
         | Some v \<Rightarrow> self\<lparr>header := header self @ [RateCommand v]\<rparr>)"

subsection \<open>The handlers\<close>

text \<open>The speech framework's \<open>speak\<close> with \<open>priority=NOW\<close> bound, as registered for
  \<open>tts_saytext\<close>: it is handed the argument tokens as they are.\<close>

definition saytext :: "'f host \<Rightarrow> 'f emacspeaker \<Rightarrow> string list \<Rightarrow> 'f result" where
  "saytext h self args = Return (invoke (speak (map Text args) NOW) self)"

definition q :: "'f host \<Rightarrow> 'f emacspeaker \<Rightarrow> string list \<Rightarrow> 'f result" where
  "q h self args =
     (let text = join '' '' args
      in Return (self\<lparr>queue := queue self @ [Text text, EndUtteranceCommand]\<rparr>))"

definition d :: "'f host \<Rightarrow> 'f emacspeaker \<Rightarrow> string list \<Rightarrow> 'f result" where
  "d h self args =
     (let res = [];
          res = res @ header self;
          res = res @ queue self;
          self = invoke (speak res NOW) self
      in Return (self\<lparr>queue := []\<rparr>))"

definition l :: "'f host \<Rightarrow> 'f emacspeaker \<Rightarrow> string list \<Rightarrow> 'f result" where
  "l h self args =
     (let res = [];
          res = res @ header self;
          res = (case state self ''character_scale'' of
                   None \<Rightarrow> res
                 | Some v \<Rightarrow> res @ [RateCommand_multiplier v]);
          res = res @ getSpellingSpeech h (concat args);
          self = invoke cancelSpeech self
      in Return (invoke (speak res NOW) self))"

definition pause :: "'f host \<Rightarrow> 'f emacspeaker \<Rightarrow> string list \<Rightarrow> 'f result" where
  "pause h self args = Return (invoke (pauseSpeech True) self)"

definition resume :: "'f host \<Rightarrow> 'f emacspeaker \<Rightarrow> string list \<Rightarrow> 'f result" where
  "resume h self args = Return (invoke (pauseSpeech False) self)"

definition s :: "'f host \<Rightarrow> 'f emacspeaker \<Rightarrow> string list \<Rightarrow> 'f result" where
  "s h self args =
     (let self = invoke cancelSpeech self
      in Return (self\<lparr>queue := []\<rparr>))"

text \<open>\<open>t\<close>: \<open>float(args[0])\<close> is evaluated first, then \<open>int(args[1])\<close>, and only then is
  the tone appended. Both indices are inside the list once its length is 2.\<close>

definition t :: "'f host \<Rightarrow> 'f emacspeaker \<Rightarrow> string list \<Rightarrow> 'f result" where
  "t h self args =
     (if length args \<noteq> 2 then Return self
      else case py_float h (args ! 0) of
             None \<Rightarrow> Raise ValueError self
           | Some x \<Rightarrow>
               (case py_int (args ! 1) of
                  Inl e \<Rightarrow> Raise e self
                | Inr n \<Rightarrow> Return (self\<lparr>queue := queue self @ [BeepCommand x n]\<rparr>)))"

definition setRate :: "'f host \<Rightarrow> 'f emacspeaker \<Rightarrow> string list \<Rightarrow> 'f result" where
  "setRate h self args =
     (case bind (getitem args 0) py_int of
        Inl e \<Rightarrow> Raise e self
      | Inr v \<Rightarrow>
          (let self = self\<lparr>state := (state self)(''rate_offset'' \<mapsto> IntV (v - RateCommand_newValue h))\<rparr>
           in Return (buildHeader self)))"

definition setCharacterScale :: "'f host \<Rightarrow> 'f emacspeaker \<Rightarrow> string list \<Rightarrow> 'f result" where
  "setCharacterScale h self args =
     (case getitem args 0 of
        Inl e \<Rightarrow> Raise e self
      | Inr a \<Rightarrow>
          (case py_float h a of
             None \<Rightarrow> Raise ValueError self
           | Some x \<Rightarrow> Return (self\<lparr>state := (state self)(''character_scale'' \<mapsto> FloatV x)\<rparr>)))"

text \<open>\<open>version\<close>: \<open>res = self._header\<close> makes \<open>res\<close> another name of the header list,
  not a copy of it, so \<open>res.append\<close> appends to the header itself.\<close>

definition version :: "'f host \<Rightarrow> 'f emacspeaker \<Rightarrow> string list \<Rightarrow> 'f result" where
  "version h self args =
     (let self = self\<lparr>header := header self @ [Text (''NVDA '' @ versionInfo_version h)]\<rparr>
      in Return (invoke (speak (header self) NOW) self))"

text \<open>\<open>reset\<close> is declared with no parameter but \<open>self\<close>.\<close>

definition reset :: "'f host \<Rightarrow> 'f emacspeaker \<Rightarrow> 'f result" where
  "reset h self = Return (buildHeader (self\<lparr>state := Map.empty\<rparr>))"

subsection \<open>Dispatch\<close>

text \<open>
  A handler of the dispatch table is a callable of one argument list (\<open>Args\<close>), or,
  for \<open>reset\<close>, a bound method that accepts no argument (\<open>NoArgs\<close>). \<open>parseCommand\<close>
  calls every handler with one argument list; Python checks the number of arguments
  before the body of the callee runs.
\<close>

datatype 'f handler =
    Args "'f host \<Rightarrow> 'f emacspeaker \<Rightarrow> string list \<Rightarrow> 'f result"
  | NoArgs "'f host \<Rightarrow> 'f emacspeaker \<Rightarrow> 'f result"

fun call1 :: "'f handler \<Rightarrow> 'f host \<Rightarrow> 'f emacspeaker \<Rightarrow> string list \<Rightarrow> 'f result" where
  "call1 (Args f) h self args = f h self args"
| "call1 (NoArgs f) h self args = Raise TypeError self"

definition cmdMap :: "(string \<times> 'f handler) list" where
  "cmdMap =
     [(''tts_saytext'', Args saytext),
      (''q'', Args q),
      (''d'', Args d),
      (''l'', Args l),
      (''tts_pause'', Args pause),
      (''tts_resume'', Args resume),
      (''s'', Args s),
      (''t'', Args t),
      (''tts_set_speech_rate'', Args setRate),
      (''tts_set_character_scale'', Args setCharacterScale),
      (''version'', Args version),
      (''tts_reset'', NoArgs reset)]"

text \<open>Lines 50 and 51 of \<open>parseCommand\<close>: the handler of \<open>t[0]\<close>, if there is one, is
  called with \<open>t[1:]\<close>.\<close>

definition dispatch :: "'f host \<Rightarrow> 'f emacspeaker \<Rightarrow> string list \<Rightarrow> 'f result" where
  "dispatch h self toks =
     (case getitem toks 0 of
        Inl e \<Rightarrow> Raise e self
      | Inr name \<Rightarrow>
          (case map_of cmdMap name of
             None \<Rightarrow> Return self
           | Some f \<Rightarrow> call1 f h self (drop 1 toks)))"

definition parseCommand :: "'f host \<Rightarrow> 'f emacspeaker \<Rightarrow> string \<Rightarrow> 'f result" where
  "parseCommand h self cmd =
     (case tokenize cmd of
        Inl e \<Rightarrow> Raise e self
      | Inr toks \<Rightarrow> dispatch h self toks)"

text \<open>
  The server object outlives a command that raises: the exception ends the connection
  that sent the line, and the next line, from any connection, meets the object as the
  failed command left it. \<open>run\<close> feeds lines one after the other.
\<close>

definition run :: "'f host \<Rightarrow> 'f emacspeaker \<Rightarrow> string list \<Rightarrow> 'f emacspeaker" where
  "run h self cmds = foldl (\<lambda>self cmd. finish (parseCommand h self cmd)) self cmds"

section \<open>The tokenizer as the specification words it\<close>

text \<open>
  The specification's steps: trim the line, split it at single spaces, append an empty
  token when fewer than two result, strip exactly one opening brace from the second
  token when it starts with one, strip exactly one closing brace from the last token
  when it ends with one; the first token is the command name and the others are the
  arguments. \<open>strip_braces\<close> works on the argument tokens: the first loses an opening
  brace, the last loses a closing brace, and the ones between are handed on as they
  are.
\<close>

definition lstrip_brace :: "string \<Rightarrow> string" where
  "lstrip_brace x = (case x of [] \<Rightarrow> [] | c # cs \<Rightarrow> if c = CHR ''{'' then cs else x)"

definition rstrip_brace :: "string \<Rightarrow> string" where
  "rstrip_brace x = (if x \<noteq> [] \<and> last x = CHR ''}'' then butlast x else x)"

fun strip_braces :: "string list \<Rightarrow> string list" where
  "strip_braces [] = []"
| "strip_braces [a] = [rstrip_brace (lstrip_brace a)]"
| "strip_braces (a # b # rest) = lstrip_brace a # butlast (b # rest) @ [rstrip_brace (last (b # rest))]"

definition tokenize_spec :: "string \<Rightarrow> string list" where
  "tokenize_spec line =
     (let toks = split_sp (strip line);
          toks = (if length toks < 2 then toks @ [''''] else toks)
      in case toks of [] \<Rightarrow> [] | name # args \<Rightarrow> name # strip_braces args)"

text \<open>The command name of a line: the text before the first space of the stripped line.\<close>

definition command_name :: "string \<Rightarrow> string" where
  "command_name line = takeWhile (\<lambda>c. c \<noteq> CHR '' '') (strip line)"

section \<open>Rate entries of a speech sequence\<close>

text \<open>The rate-offset entries of a header are its \<open>RateCommand\<close> items, each carrying
  an offset.\<close>

fun is_rate :: "'f item \<Rightarrow> bool" where
  "is_rate (RateCommand v) = True"
| "is_rate _ = False"

section \<open>A host to run examples on\<close>

text \<open>
  A host whose backend runs at rate 50, spells a text character by character, and
  whose floats are the whole numbers, read the way \<open>int()\<close> reads them.
\<close>

definition demo_host :: "int host" where
  "demo_host =
     \<lparr>RateCommand_newValue = 50,
      getSpellingSpeech = map (\<lambda>c. Text [c]),
      versionInfo_version = ''2019.3'',
      py_float = (\<lambda>x. case py_int x of Inl e \<Rightarrow> None | Inr n \<Rightarrow> Some n)\<rparr>"

section \<open>Facts about the tokenizer\<close>

lemma split_sp_not_Nil: "split_sp x \<noteq> []"
  by (induction x) (auto split: list.splits)

lemma split_sp_head: "\<exists>ws. split_sp x = takeWhile (\<lambda>c. c \<noteq> CHR '' '') x # ws"
  by (induction x) (auto split: list.splits)

lemma getitem_0: "getitem (x # xs) 0 = Inr x"
  by (simp add: getitem_def position_def)

lemma getitem_1: "getitem (x # y # ys) 1 = Inr y"
  by (simp add: getitem_def position_def)

lemma setitem_1: "setitem (x # y # ys) 1 v = Inr (x # v # ys)"
  by (simp add: setitem_def position_def)

lemma position_last: "xs \<noteq> [] \<Longrightarrow> position xs (- 1) = Some (length xs - 1)"
  by (cases xs) (auto simp: position_def)

lemma getitem_last: "xs \<noteq> [] \<Longrightarrow> getitem xs (- 1) = Inr (last xs)"
  by (simp add: getitem_def position_last last_conv_nth)

lemma setitem_last: "xs \<noteq> [] \<Longrightarrow> setitem xs (- 1) v = Inr (butlast xs @ [v])"
proof -
  assume ne: "xs \<noteq> []"
  then have "xs = butlast xs @ [last xs]" by simp
  then have "xs[length xs - 1 := v] = butlast xs @ [v]"
    by (metis length_butlast list_update_length)
  with ne show ?thesis by (simp add: setitem_def position_last)
qed

lemma startswith_brace: "startswith a ''{'' \<longleftrightarrow> (\<exists>cs. a = CHR ''{'' # cs)"
  by (cases a) (auto simp: startswith_def)

lemma endswith_brace: "endswith b ''}'' \<longleftrightarrow> b \<noteq> [] \<and> last b = CHR ''}''"
proof (cases b rule: rev_cases)
  case Nil
  then show ?thesis by (simp add: endswith_def)
next
  case (snoc ys y)
  then show ?thesis by (auto simp: endswith_def)
qed

lemma lstrip_brace_eq: "lstrip_brace a = (if startswith a ''{'' then drop 1 a else a)"
  by (cases a) (auto simp: lstrip_brace_def startswith_def)

lemma rstrip_brace_eq: "rstrip_brace b = (if endswith b ''}'' then butlast b else b)"
  by (simp add: rstrip_brace_def endswith_brace)

lemma padded_shape:
  "\<exists>a rest. (if length (split_sp (strip line)) < 2 then split_sp (strip line) @ [[]]
      else split_sp (strip line)) = command_name line # a # rest"
proof -
  obtain ws where ws: "split_sp (strip line) = command_name line # ws"
    using split_sp_head [of "strip line"] by (auto simp: command_name_def)
  show ?thesis
    by (cases ws) (simp_all add: ws)
qed

lemma braces_steps:
  "bind (getitem (n # a # rest) 1) (\<lambda>x.
     bind (if startswith x ''{'' then setitem (n # a # rest) 1 (drop 1 x) else Inr (n # a # rest)) (\<lambda>t2.
     bind (getitem t2 (- 1)) (\<lambda>b.
     if endswith b ''}'' then setitem t2 (- 1) (butlast b) else Inr t2)))
   = Inr (n # strip_braces (a # rest))"
proof (cases rest rule: rev_cases)
  case Nil
  then show ?thesis
    by (simp add: bind_def getitem_1 setitem_1 getitem_last setitem_last
        lstrip_brace_eq rstrip_brace_eq)
next
  case (snoc ys y)
  then show ?thesis
    by (cases ys) (simp_all add: bind_def getitem_1 setitem_1 getitem_last setitem_last
        lstrip_brace_eq rstrip_brace_eq butlast_append)
qed

lemma tokenize_eq: "tokenize line = Inr (tokenize_spec line)"
proof -
  define t1 where "t1 = (if length (split_sp (strip line)) < 2 then split_sp (strip line) @ [[]]
      else split_sp (strip line))"
  have tok: "tokenize line = bind (getitem t1 1) (\<lambda>x.
     bind (if startswith x ''{'' then setitem t1 1 (drop 1 x) else Inr t1) (\<lambda>t2.
     bind (getitem t2 (- 1)) (\<lambda>b.
     if endswith b ''}'' then setitem t2 (- 1) (butlast b) else Inr t2)))"
    by (simp only: tokenize_def Let_def t1_def)
  have spec: "tokenize_spec line = (case t1 of [] \<Rightarrow> [] | name # args \<Rightarrow> name # strip_braces args)"
    by (simp only: tokenize_spec_def Let_def t1_def)
  obtain a rest where sh: "t1 = command_name line # a # rest"
    unfolding t1_def using padded_shape by blast
  show ?thesis
    unfolding tok spec sh list.case by (rule braces_steps)
qed

lemma tokenize_shape: "\<exists>a rest. tokenize line = Inr (command_name line # a # rest)"
proof -
  obtain a rest where sh:
    "(if length (split_sp (strip line)) < 2 then split_sp (strip line) @ [[]]
      else split_sp (strip line)) = command_name line # a # rest"
    using padded_shape by blast
  have "tokenize_spec line = command_name line # strip_braces (a # rest)"
    by (simp only: tokenize_spec_def Let_def sh list.case)
  moreover have "\<exists>b more. strip_braces (a # rest) = b # more"
    by (cases rest) simp_all
  ultimately show ?thesis by (auto simp: tokenize_eq)
qed

lemma isspace_chars:
  "isspace c \<longleftrightarrow> c \<in> {CHR 0x09, CHR 0x0A, CHR 0x0B, CHR 0x0C, CHR 0x0D, CHR 0x1C, CHR 0x1D,
      CHR 0x1E, CHR 0x1F, CHR 0x20, CHR 0x85, CHR 0xA0}"
proof -
  have eq: "(of_char c :: nat) = of_char e \<longleftrightarrow> c = e" for e
    by (rule of_char_eq_iff)
  have "isspace c \<longleftrightarrow> (of_char c :: nat) \<in> {of_char (CHR 0x09), of_char (CHR 0x0A),
      of_char (CHR 0x0B), of_char (CHR 0x0C), of_char (CHR 0x0D), of_char (CHR 0x1C),
      of_char (CHR 0x1D), of_char (CHR 0x1E), of_char (CHR 0x1F), of_char (CHR 0x20),
      of_char (CHR 0x85), of_char (CHR 0xA0)}"
    by (simp add: isspace_def)
  also have "\<dots> \<longleftrightarrow> c \<in> {CHR 0x09, CHR 0x0A, CHR 0x0B, CHR 0x0C, CHR 0x0D, CHR 0x1C, CHR 0x1D,
      CHR 0x1E, CHR 0x1F, CHR 0x20, CHR 0x85, CHR 0xA0}"
    by (simp only: insert_iff empty_iff eq)
  finally show ?thesis .
qed

lemma rev_dropWhile_takeWhile:
  "rev (dropWhile P (rev xs)) @ rev (takeWhile P (rev xs)) = xs"
proof -
  have "rev (rev (dropWhile P (rev xs)) @ rev (takeWhile P (rev xs))) = rev xs"
    by simp
  then have "rev (rev (rev (dropWhile P (rev xs)) @ rev (takeWhile P (rev xs)))) = rev (rev xs)"
    by (rule arg_cong)
  then show ?thesis
    by (simp only: rev_rev_ident)
qed

lemma strip_decomp:
  "\<exists>pre post. line = pre @ strip line @ post \<and> list_all isspace pre \<and> list_all isspace post"
proof -
  have a: "line = takeWhile isspace line @ dropWhile isspace line"
    by simp
  have b: "dropWhile isspace line =
      strip line @ rev (takeWhile isspace (rev (dropWhile isspace line)))"
    unfolding strip_def by (rule rev_dropWhile_takeWhile [symmetric])
  have c: "list_all isspace (takeWhile isspace xs)" for xs
    by (auto simp: list_all_iff dest: set_takeWhileD)
  have d: "list_all isspace (rev (takeWhile isspace (rev (dropWhile isspace line))))"
    using c [of "rev (dropWhile isspace line)"] by (simp add: list_all_iff)
  have "line = takeWhile isspace line @ strip line
      @ rev (takeWhile isspace (rev (dropWhile isspace line)))"
    using a b by simp
  with c d show ?thesis by blast
qed

lemma strip_front: "dropWhile isspace (strip line) = strip line"
proof (cases "strip line")
  case Nil
  then show ?thesis by simp
next
  case (Cons x xs)
  define m where "m = dropWhile isspace line"
  have "m = strip line @ rev (takeWhile isspace (rev m))"
    unfolding strip_def m_def by (rule rev_dropWhile_takeWhile [symmetric])
  then have eq: "m = x # (xs @ rev (takeWhile isspace (rev m)))"
    using Cons by simp
  have ne: "m \<noteq> []"
    using eq by (metis list.distinct(1))
  have "hd m = x"
    using eq by (metis list.sel(1))
  moreover have "\<not> isspace (hd m)"
    using hd_dropWhile [of isspace line] ne unfolding m_def by blast
  ultimately have "\<not> isspace x"
    by simp
  then show ?thesis
    using Cons by simp
qed

lemma strip_back: "dropWhile isspace (rev (strip line)) = rev (strip line)"
  by (simp add: strip_def)

lemma split_sp_concat: "concat (map ((#) CHR '' '') (split_sp x)) = CHR '' '' # x"
  by (induction x) (auto split: list.splits)

lemma split_sp_no_space: "CHR '' '' \<notin> set (concat (split_sp x))"
  by (induction x) (auto split: list.splits)

text \<open>
  C4. Tokenizing a line never raises, and the tokens are determined as follows, in terms
  of list operations alone. The line is some whitespace, a body, and some whitespace,
  where the body neither starts nor ends with whitespace (stripping). The raw tokens
  hold no space, and each of them preceded by one space, put end to end, is the body
  preceded by one space (a cut at every single space, so two spaces in a row give an
  empty token). A single raw token gets an empty argument token beside it. Otherwise
  the first raw token is the command name and the others are the arguments, of which
  the first has lost one opening brace if it began with one, the last has lost one
  closing brace if it ended with one, and the ones between are unchanged. Whitespace is
  exactly the twelve characters listed. The line \<open>q {hello world}\<close> has the arguments
  \<open>hello\<close> and \<open>world\<close>; further lines show inner braces kept, only one brace taken
  from each end, surrounding whitespace of every kind stripped, a doubled space giving
  an empty token, a tab not separating tokens, and the empty line.
\<close>

theorem tokenize_characterised:
  "(\<exists>pre body post raw.
       line = pre @ body @ post
     \<and> list_all isspace pre \<and> list_all isspace post
     \<and> dropWhile isspace body = body \<and> dropWhile isspace (rev body) = rev body
     \<and> concat (map ((#) CHR '' '') raw) = CHR '' '' # body
     \<and> CHR '' '' \<notin> set (concat raw)
     \<and> (case raw of
           [] \<Rightarrow> False
         | [name] \<Rightarrow> tokenize line = Inr [name, []]
         | name # args \<Rightarrow> tokenize line = Inr (name # strip_braces args)))
   \<and> (\<forall>c. isspace c \<longleftrightarrow>
          c \<in> {CHR 0x09, CHR 0x0A, CHR 0x0B, CHR 0x0C, CHR 0x0D, CHR 0x1C, CHR 0x1D,
               CHR 0x1E, CHR 0x1F, CHR 0x20, CHR 0x85, CHR 0xA0})
   \<and> tokenize ''q {hello world}'' = Inr [''q'', ''hello'', ''world'']
   \<and> tokenize ''q {a {b} c}'' = Inr [''q'', ''a'', ''{b}'', ''c'']
   \<and> tokenize ''q {{a}}'' = Inr [''q'', ''{a}'']
   \<and> tokenize ([CHR 0x09, CHR '' ''] @ ''q {hello  {world}}'' @ [CHR 0x0D, CHR 0x0A])
        = Inr [''q'', ''hello'', [], ''{world}'']
   \<and> tokenize ([CHR 0x09, CHR 0x0A, CHR 0x0B, CHR 0x0C, CHR 0x0D, CHR 0x1C, CHR 0x1D, CHR 0x1E,
                 CHR 0x1F, CHR 0x20, CHR 0x85, CHR 0xA0] @ ''d'' @
                [CHR 0xA0, CHR 0x85, CHR 0x20, CHR 0x1F, CHR 0x1E, CHR 0x1D, CHR 0x1C, CHR 0x0D,
                 CHR 0x0C, CHR 0x0B, CHR 0x0A, CHR 0x09])
        = Inr [''d'', []]
   \<and> tokenize (''q'' @ [CHR 0x09] @ ''{a}'') = Inr [''q'' @ [CHR 0x09] @ ''{a}'', []]
   \<and> tokenize (CHR 0x1B # ''d'') = Inr [CHR 0x1B # ''d'', []]
   \<and> tokenize [] = Inr [[], []]"
proof -
  obtain pre post where dec: "line = pre @ strip line @ post"
      "list_all isspace pre" "list_all isspace post"
    using strip_decomp by blast
  have shape: "case split_sp (strip line) of
           [] \<Rightarrow> False
         | [name] \<Rightarrow> tokenize line = Inr [name, []]
         | name # args \<Rightarrow> tokenize line = Inr (name # strip_braces args)"
  proof (cases "split_sp (strip line)")
    case Nil
    then show ?thesis by (simp add: split_sp_not_Nil)
  next
    case (Cons name args)
    then show ?thesis
      by (cases args) (simp_all add: tokenize_eq tokenize_spec_def rstrip_brace_def lstrip_brace_def)
  qed
  have general: "\<exists>pre body post raw.
       line = pre @ body @ post
     \<and> list_all isspace pre \<and> list_all isspace post
     \<and> dropWhile isspace body = body \<and> dropWhile isspace (rev body) = rev body
     \<and> concat (map ((#) CHR '' '') raw) = CHR '' '' # body
     \<and> CHR '' '' \<notin> set (concat raw)
     \<and> (case raw of
           [] \<Rightarrow> False
         | [name] \<Rightarrow> tokenize line = Inr [name, []]
         | name # args \<Rightarrow> tokenize line = Inr (name # strip_braces args))"
    using dec strip_front [of line] strip_back [of line] split_sp_concat [of "strip line"]
      split_sp_no_space [of "strip line"] shape
    by blast
  have w: "\<forall>c. isspace c \<longleftrightarrow>
          c \<in> {CHR 0x09, CHR 0x0A, CHR 0x0B, CHR 0x0C, CHR 0x0D, CHR 0x1C, CHR 0x1D,
               CHR 0x1E, CHR 0x1F, CHR 0x20, CHR 0x85, CHR 0xA0}"
    using isspace_chars by blast
  have e1: "tokenize ''q {hello world}'' = Inr [''q'', ''hello'', ''world'']"
    by code_simp
  have e2: "tokenize ''q {a {b} c}'' = Inr [''q'', ''a'', ''{b}'', ''c'']"
    by code_simp
  have e3: "tokenize ''q {{a}}'' = Inr [''q'', ''{a}'']"
    by code_simp
  have e4: "tokenize ([CHR 0x09, CHR '' ''] @ ''q {hello  {world}}'' @ [CHR 0x0D, CHR 0x0A])
        = Inr [''q'', ''hello'', [], ''{world}'']"
    by code_simp
  have e5: "tokenize ([CHR 0x09, CHR 0x0A, CHR 0x0B, CHR 0x0C, CHR 0x0D, CHR 0x1C, CHR 0x1D, CHR 0x1E,
                 CHR 0x1F, CHR 0x20, CHR 0x85, CHR 0xA0] @ ''d'' @
                [CHR 0xA0, CHR 0x85, CHR 0x20, CHR 0x1F, CHR 0x1E, CHR 0x1D, CHR 0x1C, CHR 0x0D,
                 CHR 0x0C, CHR 0x0B, CHR 0x0A, CHR 0x09])
        = Inr [''d'', []]"
    by code_simp
  have e6: "tokenize (''q'' @ [CHR 0x09] @ ''{a}'') = Inr [''q'' @ [CHR 0x09] @ ''{a}'', []]"
    by code_simp
  have e7: "tokenize (CHR 0x1B # ''d'') = Inr [CHR 0x1B # ''d'', []]"
    by code_simp
  have e8: "tokenize [] = Inr [[], []]"
    by code_simp
  from general w e1 e2 e3 e4 e5 e6 e7 e8 show ?thesis
    by (intro conjI)
qed

section \<open>Facts about dispatch\<close>

lemma parse_tokens: "tokenize line = Inr toks \<Longrightarrow> parseCommand h self line = dispatch h self toks"
  by (simp add: parseCommand_def)

lemma dispatch_q: "dispatch h self (''q'' # args) = q h self args"
  by (simp add: dispatch_def getitem_0 cmdMap_def)

lemma dispatch_d: "dispatch h self (''d'' # args) = d h self args"
  by (simp add: dispatch_def getitem_0 cmdMap_def)

lemma dispatch_l: "dispatch h self (''l'' # args) = l h self args"
  by (simp add: dispatch_def getitem_0 cmdMap_def)

lemma dispatch_s: "dispatch h self (''s'' # args) = s h self args"
  by (simp add: dispatch_def getitem_0 cmdMap_def)

lemma dispatch_t: "dispatch h self (''t'' # args) = t h self args"
  by (simp add: dispatch_def getitem_0 cmdMap_def)

lemma dispatch_setRate: "dispatch h self (''tts_set_speech_rate'' # args) = setRate h self args"
  by (simp add: dispatch_def getitem_0 cmdMap_def)

lemma dispatch_setCharacterScale:
  "dispatch h self (''tts_set_character_scale'' # args) = setCharacterScale h self args"
  by (simp add: dispatch_def getitem_0 cmdMap_def)

lemma dispatch_version: "dispatch h self (''version'' # args) = version h self args"
  by (simp add: dispatch_def getitem_0 cmdMap_def)

lemma dispatch_reset: "dispatch h self (''tts_reset'' # args) = Raise TypeError self"
  by (simp add: dispatch_def getitem_0 cmdMap_def)

lemma dispatch_unknown:
  "name \<notin> set (map fst (cmdMap :: (string \<times> 'f handler) list)) \<Longrightarrow>
     dispatch (h :: 'f host) self (name # args) = Return self"
proof -
  assume "name \<notin> set (map fst (cmdMap :: (string \<times> 'f handler) list))"
  then have "map_of (cmdMap :: (string \<times> 'f handler) list) name = None"
    by (simp add: map_of_eq_None_iff)
  then show ?thesis
    by (simp add: dispatch_def getitem_0)
qed

lemma py_int_error: "py_int x = Inl e \<Longrightarrow> e = ValueError"
  by (auto simp: py_int_def Let_def split: option.splits)

lemma tokenize_d: "tokenize ''d'' = Inr [''d'', []]"
  by code_simp

lemma tokenize_set_rate_250:
  "tokenize ''tts_set_speech_rate 250'' = Inr [''tts_set_speech_rate'', ''250'']"
  by code_simp

lemma py_int_250: "py_int ''250'' = Inr 250"
  by code_simp

section \<open>Unknown commands\<close>

text \<open>
  C9. A line whose command name is not a key of the dispatch table is ignored:
  \<open>parseCommand\<close> returns, without raising, and the server (state, header, queue and
  the trace of backend calls) is as it was. The table has the twelve keys listed.
\<close>

theorem unknown_command_ignored:
  assumes "command_name line \<notin> set (map fst (cmdMap :: (string \<times> 'f handler) list))"
  shows "parseCommand (h :: 'f host) self line = Return self
       \<and> map fst (cmdMap :: (string \<times> 'f handler) list) =
           [''tts_saytext'', ''q'', ''d'', ''l'', ''tts_pause'', ''tts_resume'', ''s'', ''t'',
            ''tts_set_speech_rate'', ''tts_set_character_scale'', ''version'', ''tts_reset'']"
proof -
  obtain a rest where "tokenize line = Inr (command_name line # a # rest)"
    using tokenize_shape by blast
  then have "parseCommand h self line = Return self"
    using assms by (simp add: parse_tokens dispatch_unknown)
  then show ?thesis
    by (simp add: cmdMap_def)
qed

text \<open>The line \<open>hello {world}\<close> on the example host.\<close>

theorem unknown_command_ignored_witness:
  "command_name ''hello {world}'' \<notin> set (map fst (cmdMap :: (string \<times> int handler) list))
   \<and> parseCommand demo_host init ''hello {world}'' = Return init"
proof -
  have n: "command_name ''hello {world}'' = ''hello''" by code_simp
  have a: "command_name ''hello {world}'' \<notin> set (map fst (cmdMap :: (string \<times> int handler) list))"
    unfolding n by (simp add: cmdMap_def)
  from unknown_command_ignored [OF a, of demo_host init] a show ?thesis by blast
qed

section \<open>Queueing and dispatching speech\<close>

text \<open>
  C3. From any server, a \<open>q\<close> line followed by a \<open>d\<close> line both return, and together
  they add exactly one call to the backend: \<open>speak\<close> at priority \<open>NOW\<close> of the header
  items, then what the queue already held, then the queued text (the arguments of
  \<open>q\<close> joined by spaces), then the end-of-utterance marker. The queue is empty
  afterwards.
\<close>

theorem q_then_d:
  assumes "tokenize line1 = Inr (''q'' # args1)" and "tokenize line2 = Inr (''d'' # args2)"
  shows "\<exists>self1 self2.
           parseCommand h self line1 = Return self1
         \<and> parseCommand h self1 line2 = Return self2
         \<and> backend self2 = backend self @
              [speak (header self @ queue self @ [Text (join '' '' args1), EndUtteranceCommand]) NOW]
         \<and> queue self2 = []"
  using assms
  by (simp add: parse_tokens dispatch_q dispatch_d q_def d_def invoke_def)

text \<open>The lines \<open>q {hello}\<close> and \<open>d\<close> on a new server.\<close>

theorem q_then_d_witness:
  "tokenize ''q {hello}'' = Inr [''q'', ''hello''] \<and> tokenize ''d'' = Inr [''d'', []]
   \<and> (\<exists>self1 self2.
           parseCommand demo_host init ''q {hello}'' = Return self1
         \<and> parseCommand demo_host self1 ''d'' = Return self2
         \<and> backend self2 = [speak [Text ''hello'', EndUtteranceCommand] NOW]
         \<and> queue self2 = [])"
proof -
  have t1: "tokenize ''q {hello}'' = Inr [''q'', ''hello'']" by code_simp
  show ?thesis
    using q_then_d [OF t1 tokenize_d, of demo_host init] t1 tokenize_d by (simp add: init_def)
qed

text \<open>
  C5. A \<open>d\<close> line returns with the queue empty and the header exactly as it was before,
  whatever the header was.
\<close>

theorem d_keeps_header:
  assumes "tokenize line = Inr (''d'' # args)"
  shows "\<exists>self'. parseCommand h self line = Return self'
           \<and> header self' = header self \<and> queue self' = []"
  using assms by (simp add: parse_tokens dispatch_d d_def invoke_def)

text \<open>The line \<open>d\<close> on a server with a rate entry in the header and a text queued.\<close>

theorem d_keeps_header_witness:
  "tokenize ''d'' = Inr [''d'', []]
   \<and> (\<exists>self'. parseCommand demo_host
                 (init\<lparr>header := [RateCommand (IntV 200)], queue := [Text ''x'']\<rparr>) ''d'' = Return self'
           \<and> header self' = [RateCommand (IntV 200)] \<and> queue self' = [])"
proof -
  from d_keeps_header [OF tokenize_d, of demo_host
      "init\<lparr>header := [RateCommand (IntV 200)], queue := [Text ''x'']\<rparr>"] tokenize_d
  show ?thesis by simp
qed

text \<open>
  C7. An \<open>s\<close> line returns having made one backend call, \<open>cancelSpeech\<close>, and no
  \<open>speak\<close> call, and leaves the queue empty. A \<open>d\<close> line right after it makes one more
  call: \<open>speak\<close> of the header items alone.
\<close>

theorem s_then_d:
  assumes "tokenize line1 = Inr (''s'' # args1)" and "tokenize line2 = Inr (''d'' # args2)"
  shows "\<exists>self1 self2.
           parseCommand h self line1 = Return self1
         \<and> backend self1 = backend self @ [cancelSpeech]
         \<and> queue self1 = []
         \<and> parseCommand h self1 line2 = Return self2
         \<and> backend self2 = backend self @ [cancelSpeech, speak (header self) NOW]"
  using assms
  by (simp add: parse_tokens dispatch_s dispatch_d s_def d_def invoke_def)

text \<open>The lines \<open>s\<close> and \<open>d\<close> on a server with a text queued.\<close>

theorem s_then_d_witness:
  "tokenize ''s'' = Inr [''s'', []] \<and> tokenize ''d'' = Inr [''d'', []]
   \<and> (\<exists>self1 self2.
           parseCommand demo_host (init\<lparr>queue := [Text ''x'']\<rparr>) ''s'' = Return self1
         \<and> backend self1 = [cancelSpeech]
         \<and> queue self1 = []
         \<and> parseCommand demo_host self1 ''d'' = Return self2
         \<and> backend self2 = [cancelSpeech, speak [] NOW])"
proof -
  have t1: "tokenize ''s'' = Inr [''s'', []]" by code_simp
  from s_then_d [OF t1 tokenize_d, of demo_host "init\<lparr>queue := [Text ''x'']\<rparr>"] t1 tokenize_d
  show ?thesis by (auto simp: init_def)
qed

section \<open>Tones\<close>

text \<open>
  C8. A \<open>t\<close> line whose argument count is not 2 returns with the server unchanged:
  state, header, queue and the trace of backend calls are as before. With two arguments
  that \<open>float()\<close> and \<open>int()\<close> read, it returns with exactly one tone request appended
  to the queue, carrying the two numbers in the order of the arguments, and with
  nothing else changed.
\<close>

theorem t_arity:
  assumes "tokenize line = Inr (''t'' # args)"
  shows "(length args \<noteq> 2 \<longrightarrow> parseCommand h self line = Return self)
       \<and> (\<forall>a b x n. args = [a, b] \<and> py_float h a = Some x \<and> py_int b = Inr n \<longrightarrow>
            parseCommand h self line = Return (self\<lparr>queue := queue self @ [BeepCommand x n]\<rparr>))"
  using assms by (simp add: parse_tokens dispatch_t t_def)

text \<open>The lines \<open>t 5\<close> (one argument) and \<open>t 5 440\<close> on a new server.\<close>

theorem t_arity_witness:
  "tokenize ''t 5'' = Inr [''t'', ''5''] \<and> length [''5''] \<noteq> 2
   \<and> parseCommand demo_host init ''t 5'' = Return init
   \<and> tokenize ''t 5 440'' = Inr [''t'', ''5'', ''440'']
   \<and> py_float demo_host ''5'' = Some 5 \<and> py_int ''440'' = Inr 440
   \<and> parseCommand demo_host init ''t 5 440'' = Return (init\<lparr>queue := queue init @ [BeepCommand 5 440]\<rparr>)"
proof -
  have t1: "tokenize ''t 5'' = Inr [''t'', ''5'']" by code_simp
  have t2: "tokenize ''t 5 440'' = Inr [''t'', ''5'', ''440'']" by code_simp
  have i5: "py_int ''5'' = Inr 5" by code_simp
  have f: "py_float demo_host ''5'' = Some 5" by (simp add: demo_host_def i5)
  have i: "py_int ''440'' = Inr 440" by code_simp
  from t_arity [OF t1, of demo_host init]
  have r1: "parseCommand demo_host init ''t 5'' = Return init" by simp
  from t_arity [OF t2, of demo_host init] f i
  have r2: "parseCommand demo_host init ''t 5 440'' = Return (init\<lparr>queue := queue init @ [BeepCommand 5 440]\<rparr>)"
    by blast
  from t1 t2 f i r1 r2 show ?thesis by simp
qed

section \<open>Malformed numbers\<close>

text \<open>
  C10. When \<open>tts_set_speech_rate\<close> gets an argument that \<open>int()\<close> rejects,
  \<open>tts_set_character_scale\<close> one that \<open>float()\<close> rejects, or \<open>t\<close> two arguments of which
  \<open>float()\<close> rejects the first or \<open>int()\<close> the second, \<open>parseCommand\<close> raises
  \<open>ValueError\<close> and the server is exactly as it was before the line: nothing was
  assigned before the parse failed.
\<close>

theorem malformed_number_atomic:
  "(tokenize line = Inr (''tts_set_speech_rate'' # a # rest) \<and> isl (py_int a) \<longrightarrow>
      parseCommand h self line = Raise ValueError self)
 \<and> (tokenize line = Inr (''tts_set_character_scale'' # a # rest) \<and> py_float h a = None \<longrightarrow>
      parseCommand h self line = Raise ValueError self)
 \<and> (tokenize line = Inr [''t'', a, b] \<and> (py_float h a = None \<or> isl (py_int b)) \<longrightarrow>
      parseCommand h self line = Raise ValueError self)"
  by (auto simp: parse_tokens dispatch_setRate dispatch_setCharacterScale dispatch_t
      setRate_def setCharacterScale_def t_def getitem_0 bind_def isl_def
      dest: py_int_error split: option.splits sum.splits)

text \<open>The lines \<open>tts_set_speech_rate fast\<close>, \<open>tts_set_character_scale big\<close> and
  \<open>t 5 high\<close> on a new server.\<close>

theorem malformed_number_atomic_witness:
  "tokenize ''tts_set_speech_rate fast'' = Inr [''tts_set_speech_rate'', ''fast'']
   \<and> isl (py_int ''fast'')
   \<and> parseCommand demo_host init ''tts_set_speech_rate fast'' = Raise ValueError init
   \<and> tokenize ''tts_set_character_scale big'' = Inr [''tts_set_character_scale'', ''big'']
   \<and> py_float demo_host ''big'' = None
   \<and> parseCommand demo_host init ''tts_set_character_scale big'' = Raise ValueError init
   \<and> tokenize ''t 5 high'' = Inr [''t'', ''5'', ''high'']
   \<and> isl (py_int ''high'')
   \<and> parseCommand demo_host init ''t 5 high'' = Raise ValueError init"
proof -
  have t1: "tokenize ''tts_set_speech_rate fast'' = Inr [''tts_set_speech_rate'', ''fast'']"
    by code_simp
  have t2: "tokenize ''tts_set_character_scale big'' = Inr [''tts_set_character_scale'', ''big'']"
    by code_simp
  have t3: "tokenize ''t 5 high'' = Inr [''t'', ''5'', ''high'']" by code_simp
  have i1: "isl (py_int ''fast'')" by code_simp
  have i2: "py_int ''big'' = Inl ValueError" by code_simp
  have f2: "py_float demo_host ''big'' = None"
    by (simp add: demo_host_def i2)
  have i3: "isl (py_int ''high'')" by code_simp
  have r1: "parseCommand demo_host init ''tts_set_speech_rate fast'' = Raise ValueError init"
    using malformed_number_atomic [of "''tts_set_speech_rate fast''" "''fast''" "[]" demo_host init] t1 i1
    by blast
  have r2: "parseCommand demo_host init ''tts_set_character_scale big'' = Raise ValueError init"
    using malformed_number_atomic [of "''tts_set_character_scale big''" "''big''" "[]" demo_host init] t2 f2
    by blast
  have r3: "parseCommand demo_host init ''t 5 high'' = Raise ValueError init"
    using malformed_number_atomic [of "''t 5 high''" "''5''" "[]" demo_host init "''high''"] t3 i3
    by blast
  from t1 t2 t3 i1 f2 i3 r1 r2 r3 show ?thesis by blast
qed

section \<open>The speech rate\<close>

lemma dispatch_rate_entries:
  assumes "name \<notin> {''tts_set_speech_rate'', ''tts_reset''}"
  shows "filter is_rate (header (finish (dispatch h self (name # args)))) = filter is_rate (header self)"
proof (cases "map_of (cmdMap :: (string \<times> 'a handler) list) name")
  case None
  then show ?thesis by (simp add: dispatch_def getitem_0)
next
  case (Some f)
  then have "f \<in> {Args saytext, Args q, Args d, Args l, Args pause, Args resume, Args s,
       Args t, Args version, Args setCharacterScale}"
    using assms by (auto simp: cmdMap_def split: if_splits)
  then show ?thesis
    using Some
    by (auto simp: dispatch_def getitem_0 saytext_def q_def d_def l_def pause_def resume_def
        s_def t_def version_def setCharacterScale_def invoke_def Let_def
        split: option.splits sum.splits)
qed

lemma step_rate_entries:
  assumes "command_name c \<notin> {''tts_set_speech_rate'', ''tts_reset''}"
  shows "filter is_rate (header (finish (parseCommand h self c))) = filter is_rate (header self)"
proof -
  obtain a rest where "tokenize c = Inr (command_name c # a # rest)"
    using tokenize_shape by blast
  then have "parseCommand h self c = dispatch h self (command_name c # a # rest)"
    by (rule parse_tokens)
  then show ?thesis
    using dispatch_rate_entries [OF assms, of h self "a # rest"] by simp
qed

lemma run_Cons: "run h self (c # cs) = run h (finish (parseCommand h self c)) cs"
  by (simp add: run_def)

lemma run_rate_entries:
  "\<forall>c \<in> set cs. command_name c \<notin> {''tts_set_speech_rate'', ''tts_reset''} \<Longrightarrow>
     filter is_rate (header (run h self cs)) = filter is_rate (header self)"
proof (induction cs arbitrary: self)
  case Nil
  then show ?case by (simp add: run_def)
next
  case (Cons c cs)
  then show ?case by (simp add: run_Cons step_rate_entries)
qed

lemma submit_has_header:
  assumes "name \<in> {''d'', ''l'', ''version''}"
  shows "\<exists>self' before items. dispatch h self (name # args) = Return self'
           \<and> backend self' = backend self @ before @ [speak (header self @ items) NOW]"
proof -
  consider "name = ''d''" | "name = ''l''" | "name = ''version''"
    using assms by auto
  then show ?thesis
  proof cases
    case 1
    have "backend (finish (d h self args)) = backend self @ [] @ [speak (header self @ queue self) NOW]"
      by (simp add: d_def invoke_def)
    moreover have "d h self args = Return (finish (d h self args))"
      by (simp add: d_def)
    ultimately show ?thesis unfolding 1 dispatch_d by blast
  next
    case 2
    have "\<exists>items. backend (finish (l h self args)) = backend self @ [cancelSpeech] @ [speak (header self @ items) NOW]"
      by (cases "state self ''character_scale''") (simp_all add: l_def invoke_def)
    moreover have "l h self args = Return (finish (l h self args))"
      by (simp add: l_def Let_def)
    ultimately show ?thesis unfolding 2 dispatch_l by blast
  next
    case 3
    have "backend (finish (version h self args)) = backend self @ [] @
        [speak (header self @ [Text (''NVDA '' @ versionInfo_version h)]) NOW]"
      by (simp add: version_def invoke_def)
    moreover have "version h self args = Return (finish (version h self args))"
      by (simp add: version_def Let_def)
    ultimately show ?thesis unfolding 3 dispatch_version by blast
  qed
qed

lemma setRate_ok:
  assumes "py_int a = Inr r"
  shows "\<exists>self1. setRate h self (a # rest) = Return self1
     \<and> state self1 ''rate_offset'' = Some (IntV (r - RateCommand_newValue h))
     \<and> header self1 = [RateCommand (IntV (r - RateCommand_newValue h))]"
  using assms by (simp add: setRate_def getitem_0 bind_def buildHeader_def)

text \<open>
  C6. A \<open>tts_set_speech_rate\<close> line whose argument \<open>int()\<close> reads as \<open>r\<close> returns with
  \<open>rate_offset\<close> set to \<open>r\<close> minus the backend's rate, and with a header of exactly one
  item, the rate command carrying that offset. After any further lines that neither set
  the rate again nor reset the state, the header still has exactly one rate entry, with
  that offset, and a \<open>d\<close>, \<open>l\<close> or \<open>version\<close> line then returns having submitted, as its
  last backend call, a \<open>speak\<close> at priority \<open>NOW\<close> of a sequence that begins with that
  header.
\<close>

theorem setRate_header:
  assumes "tokenize line = Inr (''tts_set_speech_rate'' # a # rest)"
    and "py_int a = Inr r"
    and "\<forall>c \<in> set later. command_name c \<notin> {''tts_set_speech_rate'', ''tts_reset''}"
    and "tokenize nxt = Inr (name # args)"
    and "name \<in> {''d'', ''l'', ''version''}"
  shows "\<exists>self1 self3 before items.
       parseCommand h self line = Return self1
     \<and> state self1 ''rate_offset'' = Some (IntV (r - RateCommand_newValue h))
     \<and> header self1 = [RateCommand (IntV (r - RateCommand_newValue h))]
     \<and> filter is_rate (header (run h self1 later)) = [RateCommand (IntV (r - RateCommand_newValue h))]
     \<and> parseCommand h (run h self1 later) nxt = Return self3
     \<and> backend self3 = backend (run h self1 later) @ before
          @ [speak (header (run h self1 later) @ items) NOW]"
proof -
  obtain self1 where s1: "parseCommand h self line = Return self1"
      "state self1 ''rate_offset'' = Some (IntV (r - RateCommand_newValue h))"
      "header self1 = [RateCommand (IntV (r - RateCommand_newValue h))]"
    using setRate_ok [OF assms(2), of h self rest] assms(1)
    by (auto simp: parse_tokens dispatch_setRate)
  have "filter is_rate (header (run h self1 later)) = filter is_rate (header self1)"
    using assms(3) by (rule run_rate_entries)
  then have inv: "filter is_rate (header (run h self1 later)) = [RateCommand (IntV (r - RateCommand_newValue h))]"
    by (simp add: s1(3))
  obtain self3 before items where
    "parseCommand h (run h self1 later) nxt = Return self3"
    "backend self3 = backend (run h self1 later) @ before @ [speak (header (run h self1 later) @ items) NOW]"
    using submit_has_header [OF assms(5), of h "run h self1 later" args] assms(4)
    by (auto simp: parse_tokens)
  with s1 inv show ?thesis by blast
qed

text \<open>The line \<open>tts_set_speech_rate 250\<close> on a new server of the example host, whose
  backend runs at 50, then \<open>q {hi}\<close> and \<open>version\<close>, then \<open>d\<close>.\<close>

theorem setRate_header_witness:
  "tokenize ''tts_set_speech_rate 250'' = Inr [''tts_set_speech_rate'', ''250'']
   \<and> py_int ''250'' = Inr 250
   \<and> command_name ''q {hi}'' \<notin> {''tts_set_speech_rate'', ''tts_reset''}
   \<and> command_name ''version'' \<notin> {''tts_set_speech_rate'', ''tts_reset''}
   \<and> tokenize ''d'' = Inr [''d'', []]
   \<and> ''d'' \<in> {''d'', ''l'', ''version''}
   \<and> (\<exists>self1 self3 before items.
       parseCommand demo_host init ''tts_set_speech_rate 250'' = Return self1
     \<and> state self1 ''rate_offset'' = Some (IntV 200)
     \<and> header self1 = [RateCommand (IntV 200)]
     \<and> filter is_rate (header (run demo_host self1 [''q {hi}'', ''version''])) = [RateCommand (IntV 200)]
     \<and> parseCommand demo_host (run demo_host self1 [''q {hi}'', ''version'']) ''d'' = Return self3
     \<and> backend self3 = backend (run demo_host self1 [''q {hi}'', ''version'']) @ before
          @ [speak (header (run demo_host self1 [''q {hi}'', ''version'']) @ items) NOW])"
proof -
  have n1: "command_name ''q {hi}'' = ''q''" by code_simp
  have n2: "command_name ''version'' = ''version''" by code_simp
  have k: "\<forall>c \<in> set [''q {hi}'', ''version''].
         command_name c \<notin> {''tts_set_speech_rate'', ''tts_reset''}"
    by (simp add: n1 n2)
  have m: "''d'' \<in> {''d'', ''l'', ''version''}" by simp
  have v: "RateCommand_newValue demo_host = 50" by (simp add: demo_host_def)
  from setRate_header [OF tokenize_set_rate_250 py_int_250 k tokenize_d m, of demo_host init]
  have "\<exists>self1 self3 before items.
       parseCommand demo_host init ''tts_set_speech_rate 250'' = Return self1
     \<and> state self1 ''rate_offset'' = Some (IntV 200)
     \<and> header self1 = [RateCommand (IntV 200)]
     \<and> filter is_rate (header (run demo_host self1 [''q {hi}'', ''version''])) = [RateCommand (IntV 200)]
     \<and> parseCommand demo_host (run demo_host self1 [''q {hi}'', ''version'']) ''d'' = Return self3
     \<and> backend self3 = backend (run demo_host self1 [''q {hi}'', ''version'']) @ before
          @ [speak (header (run demo_host self1 [''q {hi}'', ''version'']) @ items) NOW]"
    by (simp add: v)
  moreover have "command_name ''q {hi}'' \<notin> {''tts_set_speech_rate'', ''tts_reset''}"
    by (simp add: n1)
  moreover have "command_name ''version'' \<notin> {''tts_set_speech_rate'', ''tts_reset''}"
    by (simp add: n2)
  ultimately show ?thesis
    using tokenize_set_rate_250 py_int_250 tokenize_d m by blast
qed

section \<open>Resetting, and speaking the version\<close>

text \<open>
  C2. The claim is that a \<open>tts_reset\<close> line clears the state and empties the header
  without raising. The body of \<open>reset\<close> does clear both, but the dispatch table calls
  it with an argument list it has no parameter for: the line \<open>tts_reset\<close> raises
  \<open>TypeError\<close> on every server and leaves it as it was. After
  \<open>tts_set_speech_rate 250\<close> on the example host, \<open>tts_reset\<close> raises and the rate
  offset and its header entry are still there.
\<close>

theorem reset_raises:
  "parseCommand h self ''tts_reset'' = Raise TypeError self
   \<and> state (finish (reset h self)) = Map.empty
   \<and> header (finish (reset h self)) = []
   \<and> state (run demo_host init [''tts_set_speech_rate 250'', ''tts_reset'']) ''rate_offset''
        = Some (IntV 200)
   \<and> header (run demo_host init [''tts_set_speech_rate 250'', ''tts_reset''])
        = [RateCommand (IntV 200)]"
proof -
  have tr: "tokenize ''tts_reset'' = Inr [''tts_reset'', []]" by code_simp
  have r: "parseCommand h self ''tts_reset'' = Raise TypeError self" for h :: "'b host" and self
    using tr by (simp add: parse_tokens dispatch_reset)
  have b: "state (finish (reset h self)) = Map.empty \<and> header (finish (reset h self)) = []"
    by (simp add: reset_def buildHeader_def)
  obtain self1 where s1: "parseCommand demo_host init ''tts_set_speech_rate 250'' = Return self1"
      "state self1 ''rate_offset'' = Some (IntV (250 - RateCommand_newValue demo_host))"
      "header self1 = [RateCommand (IntV (250 - RateCommand_newValue demo_host))]"
    using setRate_ok [OF py_int_250, of demo_host init "[]"] tokenize_set_rate_250
    by (auto simp: parse_tokens dispatch_setRate)
  have "run demo_host init [''tts_set_speech_rate 250'', ''tts_reset''] = self1"
    by (simp add: run_def s1(1) r)
  with s1 r b show ?thesis
    by (simp add: demo_host_def)
qed

text \<open>
  C1. The claim is that the header always equals what \<open>_buildHeader\<close> makes of the
  current state, and that \<open>version\<close> leaves it unchanged. The line \<open>version\<close> returns
  with the version text appended to the header itself, on every server. On a new server
  the header is then that one text, while the state has no \<open>rate_offset\<close> and
  \<open>_buildHeader\<close> would give the empty header.
\<close>

theorem version_appends_to_header:
  "parseCommand h self ''version'' =
     Return (self\<lparr>header := header self @ [Text (''NVDA '' @ versionInfo_version h)],
                 backend := backend self @
                   [speak (header self @ [Text (''NVDA '' @ versionInfo_version h)]) NOW]\<rparr>)
   \<and> header (finish (parseCommand h init ''version'')) = [Text (''NVDA '' @ versionInfo_version h)]
   \<and> state (finish (parseCommand h init ''version'')) ''rate_offset'' = None
   \<and> header (buildHeader (finish (parseCommand h init ''version''))) = []"
proof -
  have "tokenize ''version'' = Inr [''version'', []]" by code_simp
  then show ?thesis
    by (simp add: parse_tokens dispatch_version version_def invoke_def init_def buildHeader_def)
qed

end
